theory Spec2Isabelle
  imports Complex_Main
begin

section \<open>The API gateway dashboard: values and state\<close>

text \<open>
  The dashboard is one React function component, \<^verbatim>\<open>App\<close>, with seven state
  cells. Its behaviour lives in two asynchronous fetch functions, one effect that
  starts and stops the polling timer, two click handlers and the three-way branch of
  the render function. The model keeps the state cells as a record, writes every
  handler as a function from state to state, and puts the timer and the requests that
  are still in flight into a second record around it.

  The bodies the server sends are untyped for the code: whatever \<^verbatim>\<open>res.json()\<close>
  returns is stored. They are modelled as JSON values. A JavaScript value that is not
  JSON, \<^verbatim>\<open>undefined\<close>, only appears as the result of reading a property, and is
  the \<open>None\<close> of an option there. Numbers are rationals, which covers every finite
  double; the code only stores and shows them.

  A string is a \<open>char list\<close>; the characters stand for the code units of the
  JavaScript string below 256.
\<close>

datatype json =
    JNull
  | JBool bool
  | JNum rat
  | JStr string
  | JArr "json list"
  | JObj "(string \<times> json) list"

text \<open>The exceptions of the model: the TypeError of a property read on \<^verbatim>\<open>null\<close>,
  and the error React throws for a child it cannot draw.\<close>

datatype js_error = TypeError | InvalidChild

text \<open>JavaScript's \<^verbatim>\<open>ToBoolean\<close> on a JSON value: \<^verbatim>\<open>null\<close>, \<^verbatim>\<open>false\<close>,
  \<^verbatim>\<open>0\<close> and the empty string are falsy, every array and object is truthy.\<close>

fun truthy :: "json \<Rightarrow> bool" where
  "truthy JNull = False"
| "truthy (JBool b) = b"
| "truthy (JNum n) = (n \<noteq> 0)"
| "truthy (JStr s) = (s \<noteq> [])"
| "truthy (JArr xs) = True"
| "truthy (JObj kvs) = True"

text \<open>
  The property read \<^verbatim>\<open>v.name\<close>, for the names the code reads (\<^verbatim>\<open>detail\<close>,
  \<^verbatim>\<open>status\<close>, \<^verbatim>\<open>total_requests\<close> and the other metric fields; none of them is
  a built-in property of a string, number, boolean or array). Reading a property of
  \<^verbatim>\<open>null\<close> throws a TypeError. An object holds the properties that
  \<^verbatim>\<open>JSON.parse\<close> gave it, each key once.
\<close>

fun get_prop :: "string \<Rightarrow> json \<Rightarrow> js_error + json option" where
  "get_prop name JNull = Inl TypeError"
| "get_prop name (JObj kvs) = Inr (map_of kvs name)"
| "get_prop name v = Inr None"

text \<open>The optional chain \<^verbatim>\<open>v?.name\<close>: \<^verbatim>\<open>undefined\<close> when \<open>v\<close> is \<^verbatim>\<open>null\<close>.\<close>

fun get_prop_opt :: "string \<Rightarrow> json \<Rightarrow> json option" where
  "get_prop_opt name JNull = None"
| "get_prop_opt name (JObj kvs) = map_of kvs name"
| "get_prop_opt name v = None"

text \<open>\<^verbatim>\<open>x || d\<close>, where \<open>x\<close> may be \<^verbatim>\<open>undefined\<close>: \<open>x\<close> when truthy, else \<open>d\<close>.\<close>

fun js_or :: "json option \<Rightarrow> json \<Rightarrow> json" where
  "js_or None d = d"
| "js_or (Some v) d = (if truthy v then v else d)"

text \<open>\<^verbatim>\<open>Array.prototype.slice(-k)\<close>: the last \<open>k\<close> elements, all of them when the
  array is shorter (the start index is \<open>max (length - k) 0\<close>, which is what the
  subtraction on \<open>nat\<close> computes).\<close>

definition slice_neg :: "nat \<Rightarrow> 'a list \<Rightarrow> 'a list" where
  "slice_neg k xs = drop (length xs - k) xs"

text \<open>\<^verbatim>\<open>String.prototype.trim\<close>: white space is stripped from both ends. Of
  JavaScript's white space and line terminators, these are the code units below 256:
  tab, line feed, vertical tab, form feed, carriage return, space, no-break space.\<close>

definition is_ws :: "char \<Rightarrow> bool" where
  "is_ws c = (of_char c \<in> {9, 10, 11, 12, 13, 32, 160 :: nat})"

definition js_trim :: "string \<Rightarrow> string" where
  "js_trim s = rev (dropWhile is_ws (rev (dropWhile is_ws s)))"

subsection \<open>The component's state\<close>

text \<open>One entry of the chart history, as the updater in \<^verbatim>\<open>fetchMetrics\<close> builds it.
  \<^verbatim>\<open>requests\<close> and \<^verbatim>\<open>rateLimited\<close> are property reads of the response body, so
  they may be \<^verbatim>\<open>undefined\<close>.\<close>

record sample =
  time :: string
  requests :: "json option"
  rateLimited :: "json option"

text \<open>The seven \<^verbatim>\<open>useState\<close> cells of \<^verbatim>\<open>App\<close>. \<^verbatim>\<open>metrics\<close>, \<^verbatim>\<open>health\<close> and
  \<^verbatim>\<open>error\<close> start as \<^verbatim>\<open>null\<close>.\<close>

record app_state =
  apiKey :: string
  connected :: bool
  darkMode :: bool
  metrics :: json
  history :: "sample list"
  health :: json
  error :: json

definition init_app :: app_state where
  "init_app = \<lparr> apiKey = [], connected = False, darkMode = True, metrics = JNull,
                history = [], health = JNull, error = JNull \<rparr>"

text \<open>What a \<^verbatim>\<open>fetch\<close> followed by \<^verbatim>\<open>res.json()\<close> can come to: the fetch itself
  rejects (server unreachable), or a response arrives with its \<^verbatim>\<open>ok\<close> flag and a
  body that either parses to a JSON value or makes \<^verbatim>\<open>res.json()\<close> reject.\<close>

datatype response =
    NetworkError
  | Response bool "json option"

section \<open>The fetch functions\<close>

text \<open>The history updater of \<^verbatim>\<open>fetchMetrics\<close>:
  \<^verbatim>\<open>(prev) => [...prev.slice(-19), {time, requests: data.total_requests,
  rateLimited: data.rate_limited_requests}]\<close>. The time string is what
  \<^verbatim>\<open>new Date().toLocaleTimeString()\<close> returns, an input of the model. The two
  property reads throw when \<open>data\<close> is \<^verbatim>\<open>null\<close>.\<close>

definition new_sample :: "json \<Rightarrow> string \<Rightarrow> js_error + sample" where
  "new_sample data t =
     (case get_prop ''total_requests'' data of
        Inl e \<Rightarrow> Inl e
      | Inr r \<Rightarrow>
          (case get_prop ''rate_limited_requests'' data of
             Inl e \<Rightarrow> Inl e
           | Inr l \<Rightarrow> Inr \<lparr> time = t, requests = r, rateLimited = l \<rparr>))"

definition history_updater :: "json \<Rightarrow> string \<Rightarrow> sample list \<Rightarrow> js_error + sample list" where
  "history_updater data t prev =
     (case new_sample data t of
        Inl e \<Rightarrow> Inl e
      | Inr smp \<Rightarrow> Inr (slice_neg 19 prev @ [smp]))"

text \<open>
  \<^verbatim>\<open>fetchMetrics\<close> from the point where the request has come to an end, with the
  state the setters act on.
  \<^item> The fetch or \<^verbatim>\<open>res.json()\<close> rejects: the \<^verbatim>\<open>catch\<close> sets the error to
    "Server not reachable".
  \<^item> \<^verbatim>\<open>!res.ok\<close>: the error becomes \<^verbatim>\<open>err.detail || "Invalid API key"\<close> and
    \<^verbatim>\<open>setConnected(false)\<close> follows. When the body is \<^verbatim>\<open>null\<close> the read of
    \<^verbatim>\<open>err.detail\<close> throws before either setter is called, and the \<^verbatim>\<open>catch\<close> runs.
  \<^item> Otherwise the body becomes the metrics, the error is cleared and the history
    updater is queued. The updater runs when React renders: an exception there
    (the body is \<^verbatim>\<open>null\<close>) is a render error that unmounts the component,
    which is the \<open>Inl\<close> result.
\<close>

definition fetchMetrics :: "response \<Rightarrow> string \<Rightarrow> app_state \<Rightarrow> js_error + app_state" where
  "fetchMetrics r t s =
     (case r of
        NetworkError \<Rightarrow> Inr (s\<lparr>error := JStr ''Server not reachable''\<rparr>)
      | Response ok None \<Rightarrow> Inr (s\<lparr>error := JStr ''Server not reachable''\<rparr>)
      | Response ok (Some body) \<Rightarrow>
          if \<not> ok then
            (case get_prop ''detail'' body of
               Inl e \<Rightarrow> Inr (s\<lparr>error := JStr ''Server not reachable''\<rparr>)
             | Inr d \<Rightarrow> Inr (s\<lparr>error := js_or d (JStr ''Invalid API key''),
                             connected := False\<rparr>))
          else
            (case history_updater body t (history s) of
               Inl e \<Rightarrow> Inl e
             | Inr h \<Rightarrow> Inr (s\<lparr>metrics := body, error := JNull, history := h\<rparr>)))"

text \<open>\<^verbatim>\<open>fetchHealth\<close>: the parsed body becomes the health value whatever the status
  code was (there is no \<^verbatim>\<open>res.ok\<close> test); a rejected fetch or body gives the
  object \<^verbatim>\<open>{status: "down"}\<close>.\<close>

definition health_down :: json where
  "health_down = JObj [(''status'', JStr ''down'')]"

definition fetchHealth :: "response \<Rightarrow> app_state \<Rightarrow> app_state" where
  "fetchHealth r s =
     (case r of
        NetworkError \<Rightarrow> s\<lparr>health := health_down\<rparr>
      | Response ok None \<Rightarrow> s\<lparr>health := health_down\<rparr>
      | Response ok (Some data) \<Rightarrow> s\<lparr>health := data\<rparr>)"

section \<open>The click handlers\<close>

text \<open>The Connect button: a key that is empty after \<^verbatim>\<open>trim()\<close> sets the error and
  returns; otherwise history and metrics are reset and \<^verbatim>\<open>connected\<close> becomes true.
  The key itself is the \<^verbatim>\<open>apiKey\<close> cell, which the input's \<^verbatim>\<open>onChange\<close> keeps.\<close>

definition click_connect :: "app_state \<Rightarrow> app_state" where
  "click_connect s =
     (if js_trim (apiKey s) = [] then s\<lparr>error := JStr ''Please enter API key''\<rparr>
      else s\<lparr>history := [], metrics := JNull, connected := True\<rparr>)"

definition change_key :: "string \<Rightarrow> app_state \<Rightarrow> app_state" where
  "change_key k s = s\<lparr>apiKey := k\<rparr>"

text \<open>The Logout button: \<^verbatim>\<open>setConnected(false); setApiKey("")\<close>.\<close>

definition click_logout :: "app_state \<Rightarrow> app_state" where
  "click_logout s = s\<lparr>connected := False, apiKey := []\<rparr>"

definition toggle_dark :: "app_state \<Rightarrow> app_state" where
  "toggle_dark s = s\<lparr>darkMode := \<not> darkMode s\<rparr>"

section \<open>The render function\<close>

text \<open>
  \<^verbatim>\<open>App\<close> returns the login form when \<^verbatim>\<open>!connected\<close>, the loading line when
  \<^verbatim>\<open>!metrics\<close>, and the dashboard otherwise. Of the markup the model keeps what
  depends on the state: the error paragraph and the input's value of the login form;
  the theme, the values of the four cards, the three series of the chart and the
  health indicator of the dashboard.
\<close>

datatype indicator = Healthy | Down

record dashboard =
  dark :: bool
  total_requests_card :: "json option"
  rate_limited_card :: "json option"
  avg_latency_card :: "json option"
  p95_latency_card :: "json option"
  chart_labels :: "string list"
  chart_requests :: "json option list"
  chart_rate_limited :: "json option list"
  status :: indicator

datatype view =
    LoginView "json option" string
  | LoadingView
  | DashboardView dashboard

text \<open>\<^verbatim>\<open>health?.status === "healthy"\<close> chooses the indicator.\<close>

definition health_indicator :: "json \<Rightarrow> indicator" where
  "health_indicator h =
     (if get_prop_opt ''status'' h = Some (JStr ''healthy'') then Healthy else Down)"

text \<open>The dashboard is only built when \<^verbatim>\<open>metrics\<close> is truthy, so not \<^verbatim>\<open>null\<close>,
  and the reads \<^verbatim>\<open>metrics.total_requests\<close> cannot throw there (lemma
  \<open>get_prop_truthy\<close> below): they are written with \<open>get_prop_opt\<close>.\<close>

definition dashboard_of :: "app_state \<Rightarrow> dashboard" where
  "dashboard_of s =
     \<lparr> dark = darkMode s,
       total_requests_card = get_prop_opt ''total_requests'' (metrics s),
       rate_limited_card = get_prop_opt ''rate_limited_requests'' (metrics s),
       avg_latency_card = get_prop_opt ''average_latency_ms'' (metrics s),
       p95_latency_card = get_prop_opt ''p95_latency_ms'' (metrics s),
       chart_labels = map time (history s),
       chart_requests = map requests (history s),
       chart_rate_limited = map rateLimited (history s),
       status = health_indicator (health s) \<rparr>"

text \<open>\<^verbatim>\<open>{error && <p className="error">{error}</p>}\<close>: the paragraph is there when
  the error is truthy.\<close>

definition render :: "app_state \<Rightarrow> view" where
  "render s =
     (if \<not> connected s then
        LoginView (if truthy (error s) then Some (error s) else None) (apiKey s)
      else if \<not> truthy (metrics s) then LoadingView
      else DashboardView (dashboard_of s))"

text \<open>
  What \<^verbatim>\<open>App\<close> returns is a tree of elements; React then draws it. A child in
  braces is drawn as text when it is a string or a number, as nothing when it is a
  boolean, \<^verbatim>\<open>null\<close> or \<^verbatim>\<open>undefined\<close>, and child by child when it is an array. A
  child that is a plain object, at the top or inside an array, makes React throw
  ("Objects are not valid as a React child") and unmount the component.
\<close>

fun valid_child :: "json \<Rightarrow> bool" where
  "valid_child (JObj kvs) = False"
| "valid_child (JArr xs) = list_all valid_child xs"
| "valid_child v = True"

text \<open>A child that comes from a property read may be \<^verbatim>\<open>undefined\<close>.\<close>

fun valid_prop_child :: "json option \<Rightarrow> bool" where
  "valid_prop_child None = True"
| "valid_prop_child (Some v) = valid_child v"

text \<open>
  The view as React draws it. The children that come from the state are the error in
  the paragraph of the login form (line 106) and the values of the four cards of the
  dashboard (\<^verbatim>\<open><p>{value}</p>\<close> in \<^verbatim>\<open>MetricCard\<close>); the chart gets its data as a
  prop, not as children. The loading line has no such child.
\<close>

definition react_render :: "app_state \<Rightarrow> js_error + view" where
  "react_render s =
     (if \<not> connected s then
        (if truthy (error s) \<and> \<not> valid_child (error s) then Inl InvalidChild
         else Inr (render s))
      else if \<not> truthy (metrics s) then Inr (render s)
      else if valid_prop_child (get_prop_opt ''total_requests'' (metrics s)) \<and>
              valid_prop_child (get_prop_opt ''rate_limited_requests'' (metrics s)) \<and>
              valid_prop_child (get_prop_opt ''average_latency_ms'' (metrics s)) \<and>
              valid_prop_child (get_prop_opt ''p95_latency_ms'' (metrics s))
           then Inr (render s)
      else Inl InvalidChild)"

section \<open>The polling effect and the event loop\<close>

text \<open>
  Around the state cells: whether the interval timer of the effect is armed, and how
  many metrics and health requests have been sent and have not come back. Everything
  runs on one thread, so the system moves by one event at a time: an input change or
  a click in the view that is on screen, a firing of the timer, or the end of a
  request that is in flight.
\<close>

record sys =
  app :: app_state
  interval :: bool
  pending_metrics :: nat
  pending_health :: nat

definition init_sys :: sys where
  "init_sys = \<lparr> app = init_app, interval = False, pending_metrics = 0, pending_health = 0 \<rparr>"

text \<open>The body of the effect and of the timer's callback:
  \<^verbatim>\<open>fetchMetrics(); fetchHealth();\<close> sends both requests.\<close>

definition send_both :: "sys \<Rightarrow> sys" where
  "send_both s = s\<lparr>pending_metrics := Suc (pending_metrics s),
                   pending_health := Suc (pending_health s)\<rparr>"

text \<open>\<^verbatim>\<open>useEffect(..., [connected])\<close>: after a render in which \<^verbatim>\<open>connected\<close> has
  changed, the clean-up of the last run is called (\<^verbatim>\<open>clearInterval\<close>, when that run
  had armed the timer) and the effect runs again: when connected it sends both
  requests and arms the timer. \<open>was\<close> is the value of \<^verbatim>\<open>connected\<close> at the last
  run.\<close>

definition polling_effect :: "bool \<Rightarrow> sys \<Rightarrow> sys" where
  "polling_effect was s =
     (if connected (app s) = was then s
      else if connected (app s) then (send_both s)\<lparr>interval := True\<rparr>
      else s\<lparr>interval := False\<rparr>)"

text \<open>A state update followed by the render and its effects.\<close>

definition commit :: "sys \<Rightarrow> app_state \<Rightarrow> sys" where
  "commit s a = polling_effect (connected (app s)) (s\<lparr>app := a\<rparr>)"

datatype event =
    ChangeKey string
  | ClickConnect
  | ClickLogout
  | ToggleDark
  | Tick
  | MetricsDone response string
  | HealthDone response

definition on_dashboard :: "sys \<Rightarrow> bool" where
  "on_dashboard s = (connected (app s) \<and> truthy (metrics (app s)))"

text \<open>
  One event, as a change of the state cells, the timer and the requests in flight.
  \<open>None\<close>: the event cannot happen in this state (the button is not on screen, the
  timer is not armed, no request is in flight). \<open>Some (Inl e)\<close>: computing the new
  state throws \<open>e\<close>. Whether the view of the new state can be drawn is what
  \<open>react_render\<close> says of it.
\<close>

definition step :: "event \<Rightarrow> sys \<Rightarrow> (js_error + sys) option" where
  "step e s =
     (case e of
        ChangeKey k \<Rightarrow>
          if connected (app s) then None
          else Some (Inr (commit s (change_key k (app s))))
      | ClickConnect \<Rightarrow>
          if connected (app s) then None
          else Some (Inr (commit s (click_connect (app s))))
      | ClickLogout \<Rightarrow>
          if on_dashboard s then Some (Inr (commit s (click_logout (app s)))) else None
      | ToggleDark \<Rightarrow>
          if on_dashboard s then Some (Inr (commit s (toggle_dark (app s)))) else None
      | Tick \<Rightarrow>
          if interval s then Some (Inr (send_both s)) else None
      | MetricsDone r t \<Rightarrow>
          if pending_metrics s = 0 then None
          else (case fetchMetrics r t (app s) of
                  Inl x \<Rightarrow> Some (Inl x)
                | Inr a \<Rightarrow>
                    Some (Inr (commit (s\<lparr>pending_metrics := pending_metrics s - 1\<rparr>) a)))
      | HealthDone r \<Rightarrow>
          if pending_health s = 0 then None
          else Some (Inr (commit (s\<lparr>pending_health := pending_health s - 1\<rparr>)
                                 (fetchHealth r (app s)))))"

text \<open>A sequence of events; it stops at the first event that cannot happen or that
  throws.\<close>

fun run :: "event list \<Rightarrow> sys \<Rightarrow> (js_error + sys) option" where
  "run [] s = Some (Inr s)"
| "run (e # es) s =
     (case step e s of
        Some (Inr s') \<Rightarrow> run es s'
      | r \<Rightarrow> r)"

inductive reachable :: "sys \<Rightarrow> bool" where
  reachable_init: "reachable init_sys"
| reachable_step: "reachable s \<Longrightarrow> step e s = Some (Inr s') \<Longrightarrow> reachable s'"

text \<open>A run of successful polls, each with its body and the time string of its
  sample, applied to the state cells in order.\<close>

fun polls :: "(json \<times> string) list \<Rightarrow> app_state \<Rightarrow> js_error + app_state" where
  "polls [] s = Inr s"
| "polls ((data, t) # ps) s =
     (case fetchMetrics (Response True (Some data)) t s of
        Inl e \<Rightarrow> Inl e
      | Inr s' \<Rightarrow> polls ps s')"

section \<open>Auxiliary definitions for the statements\<close>

text \<open>The object literal of the history updater for a body that is not \<^verbatim>\<open>null\<close>,
  where the two property reads cannot throw (lemma \<open>new_sample_not_null\<close>).\<close>

definition sample_of :: "json \<Rightarrow> string \<Rightarrow> sample" where
  "sample_of d t = \<lparr> time = t, requests = get_prop_opt ''total_requests'' d,
                     rateLimited = get_prop_opt ''rate_limited_requests'' d \<rparr>"

text \<open>The requests that end in the \<^verbatim>\<open>catch\<close> block or in the \<^verbatim>\<open>!res.ok\<close>
  branch of \<^verbatim>\<open>fetchMetrics\<close>: a rejected fetch, a body that does not parse, a
  status code that is not a success.\<close>

fun fetch_failed :: "response \<Rightarrow> bool" where
  "fetch_failed NetworkError = True"
| "fetch_failed (Response ok None) = True"
| "fetch_failed (Response ok (Some body)) = (\<not> ok)"

text \<open>Bodies for the scenarios: a metrics body whose \<^verbatim>\<open>total_requests\<close> is \<open>n\<close>,
  a run of polls with \<^verbatim>\<open>total_requests\<close> going up from 1, a healthy health body and
  the body of a refused key.\<close>

definition poll_body :: "nat \<Rightarrow> json" where
  "poll_body n = JObj [(''total_requests'', JNum (of_nat n)), (''rate_limited_requests'', JNum 0),
                       (''average_latency_ms'', JNum 5), (''p95_latency_ms'', JNum 12)]"

definition increasing_polls :: "nat \<Rightarrow> (json \<times> string) list" where
  "increasing_polls n = map (\<lambda>i. (poll_body i, ''12:00:00'')) [1..<Suc n]"

definition health_ok :: json where
  "health_ok = JObj [(''status'', JStr ''healthy'')]"

definition bad_key :: json where
  "bad_key = JObj [(''detail'', JStr ''bad key'')]"

text \<open>The body of a validation error (status 422), whose detail is a list of
  objects.\<close>

definition validation_error :: json where
  "validation_error =
     JObj [(''detail'', JArr [JObj [(''msg'', JStr ''field required''),
                                    (''type'', JStr ''missing'')]])]"

text \<open>A first session: the key \<^verbatim>\<open>abc\<close> is typed and submitted, the first
  metrics poll brings 10 requests and the health check says healthy. It ends on the
  dashboard, with nothing in flight. \<open>logged_out_state\<close> is where the component
  stands when the timer has fired once more after that and the user has logged out
  before either answer came back.\<close>

definition session_one :: "event list" where
  "session_one = [ChangeKey ''abc'', ClickConnect,
        MetricsDone (Response True (Some (poll_body 10))) ''12:00:00'',
        HealthDone (Response True (Some health_ok))]"

definition dashboard_state :: sys where
  "dashboard_state =
     \<lparr> app = \<lparr> apiKey = ''abc'', connected = True, darkMode = True,
               metrics = poll_body 10,
               history = [sample_of (poll_body 10) ''12:00:00''],
               health = health_ok, error = JNull \<rparr>,
       interval = True, pending_metrics = 0, pending_health = 0 \<rparr>"

definition logged_out_state :: sys where
  "logged_out_state =
     \<lparr> app = \<lparr> apiKey = [], connected = False, darkMode = True,
               metrics = poll_body 10,
               history = [sample_of (poll_body 10) ''12:00:00''],
               health = health_ok, error = JNull \<rparr>,
       interval = False, pending_metrics = 1, pending_health = 1 \<rparr>"

section \<open>Basic facts\<close>

lemmas handler_defs = fetchMetrics_def fetchHealth_def click_connect_def click_logout_def
  change_key_def toggle_dark_def history_updater_def new_sample_def

lemmas loop_defs = step_def commit_def polling_effect_def send_both_def on_dashboard_def

lemmas example_defs = init_sys_def init_app_def poll_body_def health_ok_def bad_key_def
  health_down_def sample_of_def slice_neg_def js_trim_def is_ws_def

lemma get_prop_not_null: "v \<noteq> JNull \<Longrightarrow> get_prop name v = Inr (get_prop_opt name v)"
  by (cases v) simp_all

lemma get_prop_truthy: "truthy v \<Longrightarrow> get_prop name v = Inr (get_prop_opt name v)"
  by (cases v) simp_all

lemma new_sample_not_null: "d \<noteq> JNull \<Longrightarrow> new_sample d t = Inr (sample_of d t)"
  by (simp add: new_sample_def sample_of_def get_prop_not_null)

lemma new_sample_null: "new_sample JNull t = Inl TypeError"
  by (simp add: new_sample_def)

lemma slice_neg_snoc: "slice_neg k xs @ [x] = slice_neg (Suc k) (xs @ [x])"
  by (simp add: slice_neg_def)

lemma slice_neg_append: "slice_neg k (slice_neg k xs @ ys) = slice_neg k (xs @ ys)"
proof (cases "length xs \<le> k")
  case True
  then show ?thesis by (simp add: slice_neg_def)
next
  case False
  then have "length xs + length ys - (length xs - k + k) + (length xs - k) =
      length xs + length ys - k"
    by arith
  then show ?thesis by (simp add: slice_neg_def)
qed

lemma length_slice_neg: "length (slice_neg k xs) = min k (length xs)"
  by (simp add: slice_neg_def)

lemma fetchMetrics_success:
  "d \<noteq> JNull \<Longrightarrow>
   fetchMetrics (Response True (Some d)) t s =
     Inr (s\<lparr>metrics := d, error := JNull,
            history := slice_neg 19 (history s) @ [sample_of d t]\<rparr>)"
  by (simp add: fetchMetrics_def history_updater_def new_sample_not_null)

text \<open>The timer is armed exactly while the component is connected.\<close>

lemma interval_connected: "reachable s \<Longrightarrow> interval s = connected (app s)"
proof (induction rule: reachable.induct)
  case reachable_init
  show ?case by (simp add: init_sys_def init_app_def)
next
  case (reachable_step s e s')
  then show ?case
    by (cases e)
      (auto simp add: loop_defs handler_defs
        split: if_splits sum.splits response.splits option.splits)
qed

lemma run_reachable: "reachable s \<Longrightarrow> run es s = Some (Inr s') \<Longrightarrow> reachable s'"
proof (induction es arbitrary: s)
  case Nil
  then show ?case by simp
next
  case (Cons e es)
  from Cons.prems(2) obtain s1 where
    s1: "step e s = Some (Inr s1)" and rest: "run es s1 = Some (Inr s')"
    by (auto split: option.splits sum.splits)
  from reachable_step [OF Cons.prems(1) s1] have "reachable s1" .
  from Cons.IH [OF this rest] show ?case .
qed

lemma truthy_js_or: "truthy (js_or x (JStr ''Invalid API key''))"
  by (cases x) simp_all

lemma js_or_case:
  "js_or x y = (case x of None \<Rightarrow> y | Some d \<Rightarrow> if truthy d then d else y)"
  by (cases x) simp_all

text \<open>Every failed request leaves a message and keeps history and metrics.\<close>

lemma fetchMetrics_failed:
  assumes "fetch_failed r"
  shows "\<exists>s'. fetchMetrics r t s = Inr s' \<and> history s' = history s \<and>
           metrics s' = metrics s \<and> truthy (error s') \<and>
           (connected s' \<longrightarrow> connected s)"
proof (cases r)
  case NetworkError
  then show ?thesis by (simp add: fetchMetrics_def)
next
  case (Response ok body)
  show ?thesis
  proof (cases body)
    case None
    then show ?thesis using Response by (simp add: fetchMetrics_def)
  next
    case (Some b)
    with assms Response have "\<not> ok" by simp
    then show ?thesis
      using Response Some truthy_js_or
      by (cases "get_prop ''detail'' b") (simp_all add: fetchMetrics_def)
  qed
qed

subsection \<open>The scenario states are reachable\<close>

lemma run_session_one: "run session_one init_sys = Some (Inr dashboard_state)"
  by (simp add: session_one_def dashboard_state_def loop_defs handler_defs example_defs)

lemma reachable_dashboard_state: "reachable dashboard_state"
  by (rule run_reachable [OF reachable_init run_session_one])

lemma step_Tick_dashboard:
  "step Tick dashboard_state =
     Some (Inr (dashboard_state\<lparr>pending_metrics := 1, pending_health := 1\<rparr>))"
  by (simp add: dashboard_state_def loop_defs)

lemma reachable_polling_state:
  "reachable (dashboard_state\<lparr>pending_metrics := 1, pending_health := 1\<rparr>)"
  by (rule reachable_step [OF reachable_dashboard_state step_Tick_dashboard])

lemma run_logged_out:
  "run (session_one @ [Tick, ClickLogout]) init_sys = Some (Inr logged_out_state)"
  by (simp add: session_one_def logged_out_state_def loop_defs handler_defs example_defs)

lemma reachable_logged_out_state: "reachable logged_out_state"
  by (rule run_reachable [OF reachable_init run_logged_out])

section \<open>The history buffer\<close>

text \<open>With a history of any length, a run of polls whose bodies are not \<^verbatim>\<open>null\<close>
  leaves the last 20 entries of the old history followed by the new samples.\<close>

lemma polls_history:
  "\<forall>p \<in> set ps. fst p \<noteq> JNull \<Longrightarrow>
   \<exists>s'. polls ps s = Inr s' \<and>
        history s' = (if ps = [] then history s
                      else slice_neg 20 (history s @ map (\<lambda>(d, t). sample_of d t) ps))"
proof (induction ps arbitrary: s)
  case Nil
  then show ?case by simp
next
  case (Cons p ps)
  obtain d t where p: "p = (d, t)" by (cases p)
  from Cons.prems have d: "d \<noteq> JNull" and rest: "\<forall>p \<in> set ps. fst p \<noteq> JNull"
    by (simp_all add: p)
  let ?s1 = "s\<lparr>metrics := d, error := JNull,
            history := slice_neg 19 (history s) @ [sample_of d t]\<rparr>"
  from Cons.IH [OF rest, of ?s1] obtain s' where
    s': "polls ps ?s1 = Inr s'"
    "history s' = (if ps = [] then history ?s1
                   else slice_neg 20 (history ?s1 @ map (\<lambda>(d, t). sample_of d t) ps))"
    by blast
  have "polls (p # ps) s = Inr s'"
    by (simp add: p fetchMetrics_success [OF d] s')
  moreover have "history s' = slice_neg 20 (history s @ map (\<lambda>(d, t). sample_of d t) (p # ps))"
    using s'(2) by (simp add: p slice_neg_snoc slice_neg_append)
  ultimately show ?case by simp
qed

text \<open>
  Claim C4. Starting from an empty history, after any run of \<open>n\<close> successful polls
  (status ok, a body that is not \<^verbatim>\<open>null\<close>) the history has \<open>min n 20\<close> entries: the
  samples of the last 20 polls, in the order of the polls. After 25 polls its first
  entry carries the \<^verbatim>\<open>total_requests\<close> of the sixth poll. Once the history holds 20
  entries, one more successful poll drops exactly the oldest entry and appends the new
  sample.
\<close>

theorem history_after_polls:
  assumes ok: "list_all (\<lambda>p. fst p \<noteq> JNull) ps" and empty: "history s = []"
  shows "\<exists>s'. polls ps s = Inr s' \<and>
           length (history s') = min (length ps) 20 \<and>
           history s' = map (\<lambda>(d, t). sample_of d t) (slice_neg 20 ps) \<and>
           (length ps = 25 \<longrightarrow>
              requests (hd (history s')) = get_prop_opt ''total_requests'' (fst (ps ! 5))) \<and>
           (\<forall>d t s1. d \<noteq> JNull \<and> length (history s') = 20 \<and>
               fetchMetrics (Response True (Some d)) t s' = Inr s1 \<longrightarrow>
               history s1 = tl (history s') @ [sample_of d t])"
proof -
  from ok have "\<forall>p \<in> set ps. fst p \<noteq> JNull"
    by (simp add: list_all_iff)
  from polls_history [OF this, of s] obtain s' where
    run: "polls ps s = Inr s'" and
    h: "history s' = (if ps = [] then history s
                      else slice_neg 20 (history s @ map (\<lambda>(d, t). sample_of d t) ps))"
    by blast
  have hist: "history s' = map (\<lambda>(d, t). sample_of d t) (slice_neg 20 ps)"
    using h empty by (simp add: slice_neg_def drop_map)
  have len: "length (history s') = min (length ps) 20"
    by (simp add: hist length_slice_neg min.commute)
  have sixth: "requests (hd (history s')) = get_prop_opt ''total_requests'' (fst (ps ! 5))"
    if "length ps = 25"
  proof -
    have "slice_neg 20 ps \<noteq> []" using that by (simp add: slice_neg_def)
    then have "hd (history s') = (\<lambda>(d, t). sample_of d t) (hd (slice_neg 20 ps))"
      by (simp add: hist hd_map)
    also have "hd (slice_neg 20 ps) = ps ! 5"
      using that by (simp add: slice_neg_def hd_drop_conv_nth)
    finally show ?thesis by (simp add: sample_of_def split: prod.split)
  qed
  have evict: "history s1 = tl (history s') @ [sample_of d t]"
    if "d \<noteq> JNull" "length (history s') = 20"
       "fetchMetrics (Response True (Some d)) t s' = Inr s1" for d t s1
  proof -
    have "slice_neg 19 (history s') = tl (history s')"
      using that(2) by (simp add: slice_neg_def drop_Suc)
    then show ?thesis
      using that(3) by (auto simp add: fetchMetrics_success [OF that(1)])
  qed
  show ?thesis
    using run len hist sixth evict by blast
qed

text \<open>The scenario of the claim: 25 polls with \<^verbatim>\<open>total_requests\<close> 1 to 25. The
  history ends with 20 entries, for the requests 6 to 25.\<close>

theorem history_after_polls_witness:
  "\<exists>s'. polls (increasing_polls 25) init_app = Inr s' \<and>
        length (history s') = 20 \<and>
        requests (hd (history s')) = Some (JNum 6) \<and>
        map requests (history s') = map (\<lambda>i. Some (JNum (of_nat i))) [6..<26]"
proof -
  have ok: "list_all (\<lambda>p. fst p \<noteq> JNull) (increasing_polls 25)"
    by (simp add: increasing_polls_def poll_body_def list_all_iff)
  have empty: "history init_app = []"
    by (simp add: init_app_def)
  have len: "length (increasing_polls 25) = 25"
    by (simp add: increasing_polls_def)
  have sixth: "fst (increasing_polls 25 ! 5) = poll_body 6"
    by (simp add: increasing_polls_def)
  have last20: "map (\<lambda>(d, t). requests (sample_of d t)) (slice_neg 20 (increasing_polls 25)) =
      map (\<lambda>i. Some (JNum (of_nat i))) [6..<26]"
    by (simp add: increasing_polls_def slice_neg_def drop_map sample_of_def poll_body_def
        comp_def)
  from history_after_polls [OF ok empty] obtain s' where
    "polls (increasing_polls 25) init_app = Inr s'"
    "length (history s') = min (length (increasing_polls 25)) 20"
    "history s' = map (\<lambda>(d, t). sample_of d t) (slice_neg 20 (increasing_polls 25))"
    "length (increasing_polls 25) = 25 \<longrightarrow>
       requests (hd (history s')) = get_prop_opt ''total_requests'' (fst (increasing_polls 25 ! 5))"
    by blast
  then show ?thesis
    using len sixth last20 by (auto simp add: poll_body_def comp_def split_def)
qed

section \<open>A metrics response that is not a success\<close>

text \<open>
  The second poll of the first session is answered with status 401 and the body
  \<^verbatim>\<open>{detail: "bad key"}\<close>. The error becomes "bad key", and the component is
  disconnected with its timer cleared: it does not stay connected. The metrics and the
  one history entry are kept.
\<close>

theorem non_ok_poll_stays_connected_counterexample:
  "run (session_one @ [Tick, MetricsDone (Response False (Some bad_key)) ''12:00:02'']) init_sys =
   Some (Inr \<lparr> app = \<lparr> apiKey = ''abc'', connected = False, darkMode = True,
                       metrics = poll_body 10,
                       history = [sample_of (poll_body 10) ''12:00:00''],
                       health = health_ok, error = JStr ''bad key'' \<rparr>,
               interval = False, pending_metrics = 0, pending_health = 1 \<rparr>)"
  by (simp add: session_one_def loop_defs handler_defs example_defs)

text \<open>
  Claim C1, as the code has it. A metrics poll that is answered with a status that is
  not a success goes one of two ways.
  \<^item> The body parses to a value other than \<^verbatim>\<open>null\<close>: \<^verbatim>\<open>fetchMetrics\<close> sets the
    error to the failure message and sets \<^verbatim>\<open>connected\<close> to false. The timer is
    cleared and no later tick can fire; metrics and history are not cleared. The
    login form is drawn with the message when React can draw the message (a string, a
    number); when the detail is or holds an object, drawing it throws.
  \<^item> The body is \<^verbatim>\<open>null\<close> or does not parse: the error becomes "Server not
    reachable" and nothing else changes. A connected component stays connected with
    its timer armed, the next tick sends both requests again, and the view is drawn
    as before, so the dashboard keeps showing the metrics it had.
\<close>

theorem non_ok_poll_outcome:
  assumes "reachable s" and "0 < pending_metrics s"
  shows "(body \<noteq> JNull \<longrightarrow>
           (\<exists>s'. step (MetricsDone (Response False (Some body)) t) s = Some (Inr s') \<and>
              error (app s') = js_or (get_prop_opt ''detail'' body) (JStr ''Invalid API key'') \<and>
              truthy (error (app s')) \<and>
              \<not> connected (app s') \<and> \<not> interval s' \<and> step Tick s' = None \<and>
              pending_metrics s' = pending_metrics s - 1 \<and>
              pending_health s' = pending_health s \<and>
              metrics (app s') = metrics (app s) \<and>
              history (app s') = history (app s) \<and>
              react_render (app s') =
                (if valid_child (error (app s'))
                 then Inr (LoginView (Some (error (app s'))) (apiKey (app s)))
                 else Inl InvalidChild))) \<and>
         (b = None \<or> b = Some JNull \<longrightarrow>
           (\<exists>s'. step (MetricsDone (Response False b) t) s = Some (Inr s') \<and>
              app s' = (app s)\<lparr>error := JStr ''Server not reachable''\<rparr> \<and>
              connected (app s') = connected (app s) \<and> interval s' = interval s \<and>
              pending_metrics s' = pending_metrics s - 1 \<and>
              pending_health s' = pending_health s \<and>
              (connected (app s) \<longrightarrow>
                 step Tick s' = Some (Inr (send_both s')) \<and>
                 render (app s') = render (app s) \<and>
                 react_render (app s') = react_render (app s)) \<and>
              (on_dashboard s \<longrightarrow>
                 render (app s') = DashboardView (dashboard_of (app s)))))"
proof -
  have inv: "interval s = connected (app s)"
    using assms(1) by (rule interval_connected)
  have parsed: "\<exists>s'. step (MetricsDone (Response False (Some body)) t) s = Some (Inr s') \<and>
              error (app s') = js_or (get_prop_opt ''detail'' body) (JStr ''Invalid API key'') \<and>
              truthy (error (app s')) \<and>
              \<not> connected (app s') \<and> \<not> interval s' \<and> step Tick s' = None \<and>
              pending_metrics s' = pending_metrics s - 1 \<and>
              pending_health s' = pending_health s \<and>
              metrics (app s') = metrics (app s) \<and>
              history (app s') = history (app s) \<and>
              react_render (app s') =
                (if valid_child (error (app s'))
                 then Inr (LoginView (Some (error (app s'))) (apiKey (app s)))
                 else Inl InvalidChild)"
    if "body \<noteq> JNull"
    using that assms(2) inv truthy_js_or
    by (simp add: loop_defs fetchMetrics_def get_prop_not_null react_render_def render_def)
  have caught: "fetchMetrics (Response False b) t (app s) =
      Inr ((app s)\<lparr>error := JStr ''Server not reachable''\<rparr>)"
    if "b = None \<or> b = Some JNull"
    using that by (auto simp add: fetchMetrics_def)
  have unparsed: "\<exists>s'. step (MetricsDone (Response False b) t) s = Some (Inr s') \<and>
              app s' = (app s)\<lparr>error := JStr ''Server not reachable''\<rparr> \<and>
              connected (app s') = connected (app s) \<and> interval s' = interval s \<and>
              pending_metrics s' = pending_metrics s - 1 \<and>
              pending_health s' = pending_health s \<and>
              (connected (app s) \<longrightarrow>
                 step Tick s' = Some (Inr (send_both s')) \<and>
                 render (app s') = render (app s) \<and>
                 react_render (app s') = react_render (app s)) \<and>
              (on_dashboard s \<longrightarrow>
                 render (app s') = DashboardView (dashboard_of (app s)))"
    if "b = None \<or> b = Some JNull"
    using assms(2) inv caught [OF that]
    by (simp add: loop_defs react_render_def render_def dashboard_of_def)
  from parsed unparsed show ?thesis by blast
qed

text \<open>On the dashboard of the first session with the second poll in flight: the
  refused key, a validation error whose detail is a list of objects, and an answer
  whose body is \<^verbatim>\<open>null\<close>.\<close>

theorem non_ok_poll_outcome_witness:
  "(\<exists>s'. step (MetricsDone (Response False (Some bad_key)) ''12:00:02'')
           (dashboard_state\<lparr>pending_metrics := 1, pending_health := 1\<rparr>) = Some (Inr s') \<and>
         error (app s') = JStr ''bad key'' \<and> \<not> connected (app s') \<and> \<not> interval s' \<and>
         step Tick s' = None \<and> metrics (app s') = poll_body 10 \<and>
         react_render (app s') = Inr (LoginView (Some (JStr ''bad key'')) ''abc'')) \<and>
   (\<exists>s'. step (MetricsDone (Response False (Some validation_error)) ''12:00:02'')
           (dashboard_state\<lparr>pending_metrics := 1, pending_health := 1\<rparr>) = Some (Inr s') \<and>
         \<not> connected (app s') \<and> \<not> interval s' \<and>
         react_render (app s') = Inl InvalidChild) \<and>
   (\<exists>s'. step (MetricsDone (Response False (Some JNull)) ''12:00:02'')
           (dashboard_state\<lparr>pending_metrics := 1, pending_health := 1\<rparr>) = Some (Inr s') \<and>
         error (app s') = JStr ''Server not reachable'' \<and> connected (app s') \<and> interval s' \<and>
         step Tick s' = Some (Inr (send_both s')) \<and>
         render (app s') = DashboardView (dashboard_of (app dashboard_state)))"
proof -
  let ?s = "dashboard_state\<lparr>pending_metrics := 1, pending_health := 1\<rparr>"
  have p: "0 < pending_metrics ?s"
    by simp
  have b: "bad_key \<noteq> JNull" and v: "validation_error \<noteq> JNull"
    by (simp_all add: bad_key_def validation_error_def)
  have d: "on_dashboard ?s" and c: "connected (app ?s)" and i: "interval ?s"
    by (simp_all add: on_dashboard_def dashboard_state_def poll_body_def)
  have first: "\<exists>s'. step (MetricsDone (Response False (Some bad_key)) ''12:00:02'') ?s =
           Some (Inr s') \<and>
         error (app s') = JStr ''bad key'' \<and> \<not> connected (app s') \<and> \<not> interval s' \<and>
         step Tick s' = None \<and> metrics (app s') = poll_body 10 \<and>
         react_render (app s') = Inr (LoginView (Some (JStr ''bad key'')) ''abc'')"
    using non_ok_poll_outcome [OF reachable_polling_state p, of bad_key "''12:00:02''" None] b
    by (auto simp add: bad_key_def dashboard_state_def)
  have second: "\<exists>s'. step (MetricsDone (Response False (Some validation_error)) ''12:00:02'') ?s =
           Some (Inr s') \<and>
         \<not> connected (app s') \<and> \<not> interval s' \<and>
         react_render (app s') = Inl InvalidChild"
    using non_ok_poll_outcome [OF reachable_polling_state p, of validation_error "''12:00:02''" None] v
    by (auto simp add: validation_error_def)
  have third: "\<exists>s'. step (MetricsDone (Response False (Some JNull)) ''12:00:02'') ?s =
           Some (Inr s') \<and>
         error (app s') = JStr ''Server not reachable'' \<and> connected (app s') \<and> interval s' \<and>
         step Tick s' = Some (Inr (send_both s')) \<and>
         render (app s') = DashboardView (dashboard_of (app dashboard_state))"
    using non_ok_poll_outcome [OF reachable_polling_state p, of JNull "''12:00:02''" "Some JNull"]
      d c i
    by auto
  from first second third show ?thesis by blast
qed

section \<open>Logout\<close>

text \<open>
  Logging out of the first session: the key is emptied and the component is
  disconnected, but the metrics and the history entry of the session are still in the
  state.
\<close>

theorem logout_clears_history_and_metrics_counterexample:
  "run (session_one @ [ClickLogout]) init_sys =
   Some (Inr \<lparr> app = \<lparr> apiKey = [], connected = False, darkMode = True,
                       metrics = poll_body 10,
                       history = [sample_of (poll_body 10) ''12:00:00''],
                       health = health_ok, error = JNull \<rparr>,
               interval = False, pending_metrics = 0, pending_health = 0 \<rparr>)"
  by (simp add: session_one_def loop_defs handler_defs example_defs)

text \<open>
  Claim C2, as the code has it. In every state where the Logout button can be clicked,
  the click sets the key to the empty string and \<^verbatim>\<open>connected\<close> to false, which
  clears the timer. History, metrics, health, error and theme stay as they were (the
  metrics are there, since the button is only on the dashboard), and the requests in
  flight stay in flight. History and metrics are cleared by the next submit of a key
  that is not blank.
\<close>

theorem logout_resets_key_and_connection:
  assumes "step ClickLogout s = Some (Inr s')"
  shows "\<not> connected (app s') \<and> apiKey (app s') = [] \<and> \<not> interval s' \<and>
         step Tick s' = None \<and>
         history (app s') = history (app s) \<and>
         metrics (app s') = metrics (app s) \<and> truthy (metrics (app s')) \<and>
         health (app s') = health (app s) \<and>
         error (app s') = error (app s) \<and>
         darkMode (app s') = darkMode (app s) \<and>
         pending_metrics s' = pending_metrics s \<and> pending_health s' = pending_health s \<and>
         (js_trim k \<noteq> [] \<longrightarrow> history (click_connect (change_key k (app s'))) = [] \<and>
            metrics (click_connect (change_key k (app s'))) = JNull)"
  using assms
  by (auto simp add: loop_defs click_logout_def click_connect_def change_key_def
      split: if_splits)

theorem logout_resets_key_and_connection_witness:
  "\<exists>s'. step ClickLogout dashboard_state = Some (Inr s') \<and>
        \<not> connected (app s') \<and> apiKey (app s') = [] \<and> \<not> interval s' \<and>
        length (history (app s')) = 1 \<and> metrics (app s') = poll_body 10 \<and>
        metrics (click_connect (change_key ''xyz'' (app s'))) = JNull"
proof -
  have st: "step ClickLogout dashboard_state =
      Some (Inr (dashboard_state\<lparr>app := (app dashboard_state)\<lparr>connected := False, apiKey := []\<rparr>,
                                 interval := False\<rparr>))"
    by (simp add: dashboard_state_def loop_defs click_logout_def poll_body_def)
  have k: "js_trim ''xyz'' \<noteq> []"
    by (simp add: js_trim_def is_ws_def)
  from logout_resets_key_and_connection [OF st, of "''xyz''"] k st
  show ?thesis
    by (simp add: dashboard_state_def)
qed

section \<open>Responses that arrive after the disconnection\<close>

text \<open>
  The timer fires a second time in the first session and the user logs out while both
  requests are in flight. A metrics response that arrives then replaces the metrics
  and adds a history entry; a network error that arrives then sets the error. Neither
  is ignored.
\<close>

theorem late_response_is_noop_counterexample:
  "run (session_one @ [Tick, ClickLogout]) init_sys =
     Some (Inr \<lparr> app = \<lparr> apiKey = [], connected = False, darkMode = True,
                         metrics = poll_body 10,
                         history = [sample_of (poll_body 10) ''12:00:00''],
                         health = health_ok, error = JNull \<rparr>,
                 interval = False, pending_metrics = 1, pending_health = 1 \<rparr>) \<and>
   run (session_one @ [Tick, ClickLogout,
          MetricsDone (Response True (Some (poll_body 11))) ''12:00:03'']) init_sys =
     Some (Inr \<lparr> app = \<lparr> apiKey = [], connected = False, darkMode = True,
                         metrics = poll_body 11,
                         history = [sample_of (poll_body 10) ''12:00:00'',
                                    sample_of (poll_body 11) ''12:00:03''],
                         health = health_ok, error = JNull \<rparr>,
                 interval = False, pending_metrics = 0, pending_health = 1 \<rparr>) \<and>
   run (session_one @ [Tick, ClickLogout, MetricsDone NetworkError ''12:00:03'']) init_sys =
     Some (Inr \<lparr> app = \<lparr> apiKey = [], connected = False, darkMode = True,
                         metrics = poll_body 10,
                         history = [sample_of (poll_body 10) ''12:00:00''],
                         health = health_ok, error = JStr ''Server not reachable'' \<rparr>,
                 interval = False, pending_metrics = 0, pending_health = 1 \<rparr>)"
  by (simp add: session_one_def loop_defs handler_defs example_defs)

text \<open>
  Claim C3, as the code has it. In every reachable state that is disconnected the
  timer is not armed and no tick can fire, so no new request is sent. A response to a
  request that was already in flight is still handled as at any other time: a
  successful one replaces the metrics, clears the error and appends its sample to the
  history; a failed one sets the error and leaves history and metrics alone. The
  component stays disconnected and the timer stays cleared.
\<close>

theorem disconnected_stops_timer_not_responses:
  assumes "reachable s" and "\<not> connected (app s)"
  shows "\<not> interval s \<and> step Tick s = None \<and>
         (0 < pending_metrics s \<and> d \<noteq> JNull \<longrightarrow>
            (\<exists>s'. step (MetricsDone (Response True (Some d)) t) s = Some (Inr s') \<and>
                  metrics (app s') = d \<and> error (app s') = JNull \<and>
                  history (app s') = slice_neg 19 (history (app s)) @ [sample_of d t] \<and>
                  \<not> connected (app s') \<and> \<not> interval s' \<and>
                  pending_metrics s' = pending_metrics s - 1)) \<and>
         (0 < pending_metrics s \<and> fetch_failed r \<longrightarrow>
            (\<exists>s'. step (MetricsDone r t) s = Some (Inr s') \<and>
                  truthy (error (app s')) \<and>
                  history (app s') = history (app s) \<and> metrics (app s') = metrics (app s) \<and>
                  \<not> connected (app s') \<and> \<not> interval s' \<and>
                  pending_metrics s' = pending_metrics s - 1))"
proof -
  have inv: "\<not> interval s"
    using interval_connected [OF assms(1)] assms(2) by simp
  have ok: "\<exists>s'. step (MetricsDone (Response True (Some d)) t) s = Some (Inr s') \<and>
                  metrics (app s') = d \<and> error (app s') = JNull \<and>
                  history (app s') = slice_neg 19 (history (app s)) @ [sample_of d t] \<and>
                  \<not> connected (app s') \<and> \<not> interval s' \<and>
                  pending_metrics s' = pending_metrics s - 1"
    if "0 < pending_metrics s" "d \<noteq> JNull"
    using that inv assms(2) by (simp add: loop_defs fetchMetrics_success)
  have bad: "\<exists>s'. step (MetricsDone r t) s = Some (Inr s') \<and>
                  truthy (error (app s')) \<and>
                  history (app s') = history (app s) \<and> metrics (app s') = metrics (app s) \<and>
                  \<not> connected (app s') \<and> \<not> interval s' \<and>
                  pending_metrics s' = pending_metrics s - 1"
    if "0 < pending_metrics s" "fetch_failed r"
  proof -
    from fetchMetrics_failed [OF that(2), of t "app s"] obtain a where
      a: "fetchMetrics r t (app s) = Inr a" "history a = history (app s)"
         "metrics a = metrics (app s)" "truthy (error a)" "connected a \<longrightarrow> connected (app s)"
      by blast
    from a(5) assms(2) have "\<not> connected a" by simp
    then show ?thesis
      using that(1) inv assms(2) a(1-4) by (simp add: loop_defs)
  qed
  show ?thesis
    using inv ok bad by (simp add: step_def)
qed

theorem disconnected_stops_timer_not_responses_witness:
  "\<not> interval logged_out_state \<and> step Tick logged_out_state = None \<and>
   (\<exists>s'. step (MetricsDone (Response True (Some (poll_body 11))) ''12:00:03'') logged_out_state =
            Some (Inr s') \<and>
          metrics (app s') = poll_body 11 \<and> length (history (app s')) = 2) \<and>
   (\<exists>s'. step (MetricsDone NetworkError ''12:00:03'') logged_out_state = Some (Inr s') \<and>
          truthy (error (app s')) \<and> length (history (app s')) = 1)"
proof -
  have c: "\<not> connected (app logged_out_state)"
    by (simp add: logged_out_state_def)
  have p: "0 < pending_metrics logged_out_state"
    by (simp add: logged_out_state_def)
  have d: "poll_body 11 \<noteq> JNull"
    by (simp add: poll_body_def)
  have f: "fetch_failed NetworkError"
    by simp
  from disconnected_stops_timer_not_responses
    [OF reachable_logged_out_state c, of "poll_body 11" "''12:00:03''" NetworkError] p d f
  show ?thesis
    by (auto simp add: logged_out_state_def slice_neg_def)
qed

section \<open>Submitting a key\<close>

text \<open>
  Claim C5. The Connect button, clicked on the login form with the candidate key in
  the input. When the candidate is empty after trimming, the click sets the error
  message "Please enter API key" and changes nothing else: the component stays
  disconnected, the timer stays off and no request is sent. When it is not, the click
  empties the history, removes the metrics and connects, keeping the candidate as
  the key; nothing checks the key before, and the effect then arms the timer and
  sends the first two requests.
\<close>

theorem connect_click:
  assumes "\<not> connected (app s)"
  shows "\<exists>s'. step ClickConnect s = Some (Inr s') \<and>
           (js_trim (apiKey (app s)) = [] \<longrightarrow>
              app s' = (app s)\<lparr>error := JStr ''Please enter API key''\<rparr> \<and>
              truthy (error (app s')) \<and> \<not> connected (app s') \<and>
              interval s' = interval s \<and>
              pending_metrics s' = pending_metrics s \<and>
              pending_health s' = pending_health s) \<and>
           (js_trim (apiKey (app s)) \<noteq> [] \<longrightarrow>
              app s' = (app s)\<lparr>history := [], metrics := JNull, connected := True\<rparr> \<and>
              history (app s') = [] \<and> metrics (app s') = JNull \<and> connected (app s') \<and>
              apiKey (app s') = apiKey (app s) \<and>
              interval s' \<and>
              pending_metrics s' = Suc (pending_metrics s) \<and>
              pending_health s' = Suc (pending_health s))"
  using assms by (simp add: loop_defs click_connect_def)

text \<open>A key of one space is refused; the key \<^verbatim>\<open>abc\<close> connects.\<close>

theorem connect_click_witness:
  "(\<exists>s'. run [ChangeKey '' '', ClickConnect] init_sys = Some (Inr s') \<and>
         app s' = init_app\<lparr>apiKey := '' '', error := JStr ''Please enter API key''\<rparr> \<and>
         \<not> connected (app s') \<and> \<not> interval s' \<and>
         pending_metrics s' = 0 \<and> pending_health s' = 0) \<and>
   (\<exists>s'. run [ChangeKey ''abc'', ClickConnect] init_sys = Some (Inr s') \<and>
         app s' = init_app\<lparr>apiKey := ''abc'', connected := True\<rparr> \<and>
         interval s' \<and> pending_metrics s' = 1 \<and> pending_health s' = 1)"
proof -
  let ?blank = "init_sys\<lparr>app := init_app\<lparr>apiKey := '' ''\<rparr>\<rparr>"
  let ?abc = "init_sys\<lparr>app := init_app\<lparr>apiKey := ''abc''\<rparr>\<rparr>"
  have s1: "step (ChangeKey '' '') init_sys = Some (Inr ?blank)"
    and s2: "step (ChangeKey ''abc'') init_sys = Some (Inr ?abc)"
    by (simp_all add: loop_defs change_key_def init_sys_def init_app_def)
  have c1: "\<not> connected (app ?blank)" and c2: "\<not> connected (app ?abc)"
    by (simp_all add: init_app_def)
  have t1: "js_trim (apiKey (app ?blank)) = []" and t2: "js_trim (apiKey (app ?abc)) \<noteq> []"
    by (simp_all add: js_trim_def is_ws_def)
  from connect_click [OF c1] t1 s1
  have "\<exists>s'. run [ChangeKey '' '', ClickConnect] init_sys = Some (Inr s') \<and>
         app s' = init_app\<lparr>apiKey := '' '', error := JStr ''Please enter API key''\<rparr> \<and>
         \<not> connected (app s') \<and> \<not> interval s' \<and>
         pending_metrics s' = 0 \<and> pending_health s' = 0"
    by (auto simp add: init_sys_def init_app_def)
  moreover from connect_click [OF c2] t2 s2
  have "\<exists>s'. run [ChangeKey ''abc'', ClickConnect] init_sys = Some (Inr s') \<and>
         app s' = init_app\<lparr>apiKey := ''abc'', connected := True\<rparr> \<and>
         interval s' \<and> pending_metrics s' = 1 \<and> pending_health s' = 1"
    by (auto simp add: init_sys_def init_app_def)
  ultimately show ?thesis by blast
qed

section \<open>What a metrics fetch changes\<close>

text \<open>
  Claim C6. Every failed metrics fetch (the fetch rejects, the body does not parse, or
  the status is not a success) leaves the history as it was and sets the error to a
  message. A successful fetch after it (status ok, a body that is not \<^verbatim>\<open>null\<close>)
  clears the error and appends exactly one sample: the new history is the last 19
  entries of the old one followed by the new sample, which is the old history followed
  by the sample while fewer than 20 entries are held.
\<close>

theorem failure_keeps_history_success_appends:
  assumes "fetch_failed r" and "d \<noteq> JNull"
  shows "\<exists>s1 s2. fetchMetrics r t1 s = Inr s1 \<and>
           history s1 = history s \<and> truthy (error s1) \<and>
           fetchMetrics (Response True (Some d)) t2 s1 = Inr s2 \<and>
           error s2 = JNull \<and>
           history s2 = slice_neg 19 (history s) @ [sample_of d t2] \<and>
           length (history s2) = min 20 (Suc (length (history s))) \<and>
           (length (history s) < 20 \<longrightarrow> history s2 = history s @ [sample_of d t2])"
proof -
  from fetchMetrics_failed [OF assms(1), of t1 s] obtain s1 where
    s1: "fetchMetrics r t1 s = Inr s1" "history s1 = history s" "truthy (error s1)"
    by blast
  let ?s2 = "s1\<lparr>metrics := d, error := JNull,
            history := slice_neg 19 (history s1) @ [sample_of d t2]\<rparr>"
  have s2: "fetchMetrics (Response True (Some d)) t2 s1 = Inr ?s2"
    by (rule fetchMetrics_success [OF assms(2)])
  have len: "length (history ?s2) = min 20 (Suc (length (history s)))"
    by (simp add: s1(2) length_slice_neg)
  have short: "history ?s2 = history s @ [sample_of d t2]" if "length (history s) < 20"
    using that by (simp add: s1(2) slice_neg_def)
  show ?thesis
    using s1 s2 len short by (intro exI [of _ s1] exI [of _ ?s2]) simp
qed

text \<open>The refused key after the first poll, then a poll that succeeds.\<close>

theorem failure_keeps_history_success_appends_witness:
  "\<exists>s1 s2. fetchMetrics (Response False (Some bad_key)) ''12:00:02'' (app dashboard_state) =
       Inr s1 \<and>
     history s1 = [sample_of (poll_body 10) ''12:00:00''] \<and> error s1 = JStr ''bad key'' \<and>
     fetchMetrics (Response True (Some (poll_body 11))) ''12:00:04'' s1 = Inr s2 \<and>
     error s2 = JNull \<and>
     history s2 = [sample_of (poll_body 10) ''12:00:00'', sample_of (poll_body 11) ''12:00:04'']"
proof -
  have f: "fetch_failed (Response False (Some bad_key))"
    by simp
  have d: "poll_body 11 \<noteq> JNull"
    by (simp add: poll_body_def)
  have e: "fetchMetrics (Response False (Some bad_key)) ''12:00:02'' (app dashboard_state) =
      Inr ((app dashboard_state)\<lparr>error := JStr ''bad key'', connected := False\<rparr>)"
    by (simp add: fetchMetrics_def bad_key_def)
  from failure_keeps_history_success_appends [OF f d,
      of "''12:00:02''" "app dashboard_state" "''12:00:04''"] e
  show ?thesis
    by (auto simp add: dashboard_state_def)
qed

section \<open>The failure message\<close>

text \<open>
  Two responses with a status that is not a success. The body
  \<^verbatim>\<open>{detail: ""}\<close> has a detail field, and the message is the default, not the
  field. The body \<^verbatim>\<open>null\<close> has no detail field, and the message is "Server not
  reachable", not the default; the component stays connected there.
\<close>

theorem failure_message_is_detail_counterexample:
  "fetchMetrics (Response False (Some (JObj [(''detail'', JStr [])]))) ''12:00:02''
       (app dashboard_state) =
     Inr ((app dashboard_state)\<lparr>error := JStr ''Invalid API key'', connected := False\<rparr>) \<and>
   fetchMetrics (Response False (Some JNull)) ''12:00:02'' (app dashboard_state) =
     Inr ((app dashboard_state)\<lparr>error := JStr ''Server not reachable''\<rparr>)"
  by (simp add: fetchMetrics_def)

text \<open>
  Claim C7, as the code has it. For every response with a status that is not a
  success and a body that parses to a value other than \<^verbatim>\<open>null\<close>, the error message
  is the body's detail field when that field is there and truthy, and the default
  "Invalid API key" otherwise (no field, or an empty string, zero, false or
  \<^verbatim>\<open>null\<close> in it). When the fetch rejects, the body does not parse, or the body of
  such a response is \<^verbatim>\<open>null\<close>, the message is "Server not reachable".
\<close>

theorem failure_message:
  "fetchMetrics NetworkError t s = Inr (s\<lparr>error := JStr ''Server not reachable''\<rparr>) \<and>
   fetchMetrics (Response ok None) t s = Inr (s\<lparr>error := JStr ''Server not reachable''\<rparr>) \<and>
   fetchMetrics (Response False (Some JNull)) t s =
     Inr (s\<lparr>error := JStr ''Server not reachable''\<rparr>) \<and>
   (body \<noteq> JNull \<longrightarrow>
      (\<exists>s'. fetchMetrics (Response False (Some body)) t s = Inr s' \<and>
         error s' =
           (case get_prop_opt ''detail'' body of
              None \<Rightarrow> JStr ''Invalid API key''
            | Some d \<Rightarrow> if truthy d then d else JStr ''Invalid API key'')))"
  by (simp add: fetchMetrics_def get_prop_not_null js_or_case)

text \<open>A detail string, an object without the field, and a body that is a string.\<close>

theorem failure_message_witness:
  "(\<exists>s'. fetchMetrics (Response False (Some bad_key)) ''12:00:02'' init_app = Inr s' \<and>
         error s' = JStr ''bad key'') \<and>
   (\<exists>s'. fetchMetrics (Response False (Some (JObj []))) ''12:00:02'' init_app = Inr s' \<and>
         error s' = JStr ''Invalid API key'') \<and>
   (\<exists>s'. fetchMetrics (Response False (Some (JStr ''Bad Gateway''))) ''12:00:02'' init_app =
           Inr s' \<and>
         error s' = JStr ''Invalid API key'')"
proof -
  have a: "\<exists>s'. fetchMetrics (Response False (Some bad_key)) ''12:00:02'' init_app = Inr s' \<and>
         error s' = JStr ''bad key''"
    using failure_message [of "''12:00:02''" init_app True bad_key]
    by (simp add: bad_key_def)
  have b: "\<exists>s'. fetchMetrics (Response False (Some (JObj []))) ''12:00:02'' init_app = Inr s' \<and>
         error s' = JStr ''Invalid API key''"
    using failure_message [of "''12:00:02''" init_app True "JObj []"]
    by simp
  have c: "\<exists>s'. fetchMetrics (Response False (Some (JStr ''Bad Gateway''))) ''12:00:02'' init_app =
           Inr s' \<and>
         error s' = JStr ''Invalid API key''"
    using failure_message [of "''12:00:02''" init_app True "JStr ''Bad Gateway''"]
    by simp
  from a b c show ?thesis by blast
qed

section \<open>Health\<close>

text \<open>
  Claim C8. \<^verbatim>\<open>fetchHealth\<close> never touches the error: whatever the request comes to,
  the error is what it was. When the fetch rejects or the body does not parse, the
  health value becomes \<^verbatim>\<open>{status: "down"}\<close>. The dashboard shows the Healthy
  indicator exactly when the status field of the health value is the string
  "healthy", and Down for everything else, the synthetic value and the initial
  \<^verbatim>\<open>null\<close> included.
\<close>

theorem health_failure_is_down:
  "fetchHealth NetworkError s = s\<lparr>health := health_down\<rparr> \<and>
   fetchHealth (Response ok None) s = s\<lparr>health := health_down\<rparr> \<and>
   fetchHealth (Response ok (Some d)) s = s\<lparr>health := d\<rparr> \<and>
   error (fetchHealth r s) = error s \<and>
   get_prop_opt ''status'' health_down = Some (JStr ''down'') \<and>
   health_indicator health_down = Down \<and>
   health_indicator JNull = Down \<and>
   (health_indicator h = Healthy) = (get_prop_opt ''status'' h = Some (JStr ''healthy'')) \<and>
   (health_indicator h = Down) = (get_prop_opt ''status'' h \<noteq> Some (JStr ''healthy'')) \<and>
   (render s = DashboardView v) = (connected s \<and> truthy (metrics s) \<and> v = dashboard_of s) \<and>
   status (dashboard_of s) = health_indicator (health s)"
proof -
  have e: "error (fetchHealth r s) = error s"
    by (cases r) (simp_all add: fetchHealth_def split: option.split)
  have v: "(render s = DashboardView v) = (connected s \<and> truthy (metrics s) \<and> v = dashboard_of s)"
    by (auto simp add: render_def)
  show ?thesis
    using e v by (simp add: fetchHealth_def health_down_def health_indicator_def dashboard_of_def)
qed

section \<open>The three views\<close>

text \<open>
  Claim C9. The view is a function of the state cells alone, and one of three: the
  login form exactly when the component is not connected (with the error paragraph
  exactly when there is an error message), the loading line exactly when it is
  connected and holds no metrics, the dashboard exactly when it is connected and holds
  metrics. Holding metrics is the test \<^verbatim>\<open>!metrics\<close> of the code: \<^verbatim>\<open>null\<close>
  fails it, every object passes it.
\<close>

theorem render_three_way:
  "((\<exists>e k. render s = LoginView e k) = (\<not> connected s)) \<and>
   (render s = LoadingView) = (connected s \<and> \<not> truthy (metrics s)) \<and>
   ((\<exists>d. render s = DashboardView d) = (connected s \<and> truthy (metrics s))) \<and>
   (render s = LoginView (Some (error s)) (apiKey s)) = (\<not> connected s \<and> truthy (error s)) \<and>
   (render s = LoginView None (apiKey s)) = (\<not> connected s \<and> \<not> truthy (error s)) \<and>
   (render s = DashboardView (dashboard_of s)) = (connected s \<and> truthy (metrics s)) \<and>
   \<not> truthy JNull \<and> truthy (JObj kvs)"
  by (simp add: render_def)

section \<open>Health across sessions\<close>

text \<open>
  Claim C10. Neither the Connect click nor the Logout click writes the health value.
  Connect leaves key, theme and health alone (it resets history and metrics); Logout
  leaves history, metrics, health, error and theme alone (it resets key and
  connection). So the health value of one session is still there in the next: after
  the first session, a logout and a connect with the key \<^verbatim>\<open>xyz\<close>, the first metrics
  response puts the dashboard on screen with the Healthy indicator of the first
  session, while the health request of the new session is still in flight.
\<close>

theorem health_survives_logout_and_connect:
  "health (click_connect a) = health a \<and>
   apiKey (click_connect a) = apiKey a \<and>
   darkMode (click_connect a) = darkMode a \<and>
   health (click_logout a) = health a \<and>
   history (click_logout a) = history a \<and>
   metrics (click_logout a) = metrics a \<and>
   error (click_logout a) = error a \<and>
   darkMode (click_logout a) = darkMode a \<and>
   health (change_key k a) = health a \<and>
   (\<exists>s. run (session_one @ [ClickLogout, ChangeKey ''xyz'', ClickConnect,
                MetricsDone (Response True (Some (poll_body 3))) ''12:05:00'']) init_sys =
           Some (Inr s) \<and>
        apiKey (app s) = ''xyz'' \<and> pending_health s = 1 \<and> health (app s) = health_ok \<and>
        history (app s) = [sample_of (poll_body 3) ''12:05:00''] \<and>
        render (app s) = DashboardView (dashboard_of (app s)) \<and>
        status (dashboard_of (app s)) = Healthy)"
proof -
  have frame: "health (click_connect a) = health a \<and>
   apiKey (click_connect a) = apiKey a \<and>
   darkMode (click_connect a) = darkMode a \<and>
   health (click_logout a) = health a \<and>
   history (click_logout a) = history a \<and>
   metrics (click_logout a) = metrics a \<and>
   error (click_logout a) = error a \<and>
   darkMode (click_logout a) = darkMode a \<and>
   health (change_key k a) = health a"
    by (simp add: click_connect_def click_logout_def change_key_def)
  have tr: "run (session_one @ [ClickLogout, ChangeKey ''xyz'', ClickConnect,
                MetricsDone (Response True (Some (poll_body 3))) ''12:05:00'']) init_sys =
      Some (Inr \<lparr> app = \<lparr> apiKey = ''xyz'', connected = True, darkMode = True,
                       metrics = poll_body 3,
                       history = [sample_of (poll_body 3) ''12:05:00''],
                       health = health_ok, error = JNull \<rparr>,
               interval = True, pending_metrics = 0, pending_health = 1 \<rparr>)"
    by (simp add: session_one_def loop_defs handler_defs example_defs)
  have "\<exists>s. run (session_one @ [ClickLogout, ChangeKey ''xyz'', ClickConnect,
                MetricsDone (Response True (Some (poll_body 3))) ''12:05:00'']) init_sys =
           Some (Inr s) \<and>
        apiKey (app s) = ''xyz'' \<and> pending_health s = 1 \<and> health (app s) = health_ok \<and>
        history (app s) = [sample_of (poll_body 3) ''12:05:00''] \<and>
        render (app s) = DashboardView (dashboard_of (app s)) \<and>
        status (dashboard_of (app s)) = Healthy"
    unfolding tr
    by (simp add: render_def dashboard_of_def health_indicator_def health_ok_def poll_body_def)
  with frame show ?thesis by blast
qed

end
